theory Spec2Isabelle
  imports Main "HOL-Library.Sublist"
begin

section \<open>Values shared by the request assembly and the settings store\<close>

text \<open>
  JavaScript strings are modelled as \<^typ>\<open>string\<close>, numbers as \<^typ>\<open>int\<close>
  (fractions and NaN are outside the model), \<open>undefined\<close> as \<open>None\<close>.
  A thrown \<open>Error\<close> is the value \<open>Error msg\<close>; a function that can throw returns
  \<open>error + 'a\<close>.  Logger and console calls are collected in a list of log entries.
\<close>

abbreviation NL :: string where
  "NL \<equiv> [CHR 0x0A]"

datatype error = Error string | TypeError | SyntaxError

datatype log_entry = Warn string | Info string | ConsoleLog string | ConsoleError string error

text \<open>A parsed JSON value; an object is the list of its entries in enumeration order.\<close>

datatype json =
    JNull
  | JBool bool
  | JNum int
  | JStr string
  | JArr "json list"
  | JObj "(string \<times> json) list"

text \<open>
  Decimal rendering of a number, as a template literal does it for an integer below
  \<open>10\<^sup>2\<^sup>1\<close> in absolute value (from there on JavaScript prints an exponent).
\<close>

fun decimal :: "nat \<Rightarrow> string" where
  "decimal n =
     (if n < 10 then [''0123456789'' ! n]
      else decimal (n div 10) @ [''0123456789'' ! (n mod 10)])"

declare decimal.simps [simp del]

definition numberToString :: "int \<Rightarrow> string" where
  "numberToString i = (if i < 0 then ''-'' @ decimal (nat (- i)) else decimal (nat i))"

section \<open>Data model of the request assembly (stream-text.ts)\<close>

datatype role = System | User | Assistant | Data

record message =
  role :: role
  content :: string

record model_info =
  mi_name :: string
  mi_label :: string
  mi_provider :: string
  maxTokenAllowed :: "int option"

text \<open>
  A provider descriptor.  \<open>staticModels\<close>, \<open>defaultModel\<close>, \<open>models\<close> and
  \<open>isConfigurable\<close> may be absent; \<open>settings\<close> is whatever the settings store put
  there (a JSON value, or \<open>undefined\<close>).
\<close>

record provider_info =
  name :: string
  staticModels :: "model_info list option"
  defaultModel :: "string option"
  models :: "model_info list option"
  isConfigurable :: "bool option"
  settings :: "json option"

datatype chat_mode = Discuss | Build | Patch

record dirent =
  kind :: string
  fileContent :: string
  isLocked :: "bool option"

text \<open>
  A \<open>FileMap\<close> is an object from paths to entries (or \<open>undefined\<close>); it is kept as the
  list that \<open>Object.entries\<close> enumerates.
\<close>

type_synonym file_map = "(string \<times> dirent option) list"

record supabase_credentials =
  anonKey :: "string option"
  supabaseUrl :: "string option"

record supabase_connection =
  isConnected :: bool
  hasSelectedProject :: bool
  credentials :: "supabase_credentials option"

text \<open>
  \<open>StreamingOptions\<close>: the Supabase connection and those SDK parameters that the
  final object spread \<open>...options\<close> writes over the assembled ones.  \<open>None\<close> says that
  the options object has no such property.
\<close>

record streaming_options =
  supabaseConnection :: "supabase_connection option"
  opt_system :: "string option"
  opt_maxTokens :: "int option"
  opt_messages :: "message list option"

record supabase_params =
  sp_isConnected :: bool
  sp_hasSelectedProject :: bool
  sp_credentials :: "supabase_credentials option"

record prompt_params =
  pp_cwd :: string
  pp_allowedHtmlElements :: "string list"
  pp_modificationTagName :: string
  pp_designScheme :: "string option"
  pp_supabase :: supabase_params

text \<open>The credentials handed on to the dynamic model fetch and to the model instance.\<close>

record credentials_bundle =
  cb_apiKeys :: "(string \<times> string) list option"
  cb_providerSettings :: "(string \<times> json) list option"
  cb_serverEnv :: "(string \<times> string) list option"

record props =
  messages :: "message list"
  env :: "(string \<times> string) list option"
  options :: "streaming_options option"
  apiKeys :: "(string \<times> string) list option"
  files :: "file_map option"
  providerSettings :: "(string \<times> json) list option"
  promptId :: "string option"
  contextOptimization :: "bool option"
  contextFiles :: "file_map option"
  summary :: "string option"
  messageSliceId :: "int option"
  chatMode :: "chat_mode option"
  designScheme :: "string option"

text \<open>
  The constants and collaborators that stream-text.ts imports from modules outside these
  source files are parameters of the model: the constants of \<open>~/utils/constants\<close> and
  \<open>./constants\<close>, \<open>extractPropertiesFromMessage\<close> and \<open>createFilesContext\<close> of
  \<open>./utils\<close>, the dynamic model fetch of the LLM manager (which may throw), the prompt
  library, \<open>getSystemPrompt\<close> and \<open>discussPrompt\<close>.
\<close>

record collaborators =
  DEFAULT_MODEL :: string
  DEFAULT_PROVIDER :: provider_info
  PROVIDER_LIST :: "provider_info list"
  MAX_TOKENS :: int
  MODIFICATIONS_TAG_NAME :: string
  WORK_DIR :: string
  allowedHTMLElements :: "string list"
  extractPropertiesFromMessage :: "message \<Rightarrow> string \<times> string \<times> string"
  getModelListFromProvider :: "provider_info \<Rightarrow> credentials_bundle \<Rightarrow> error + model_info list"
  getPropmtFromLibrary :: "string \<Rightarrow> prompt_params \<Rightarrow> string option"
  getSystemPrompt :: string
  discussPrompt :: string
  createFilesContext :: "file_map \<Rightarrow> bool \<Rightarrow> string"

section \<open>String helpers: search, replace, trim\<close>

text \<open>
  \<open>find_sub pat s\<close> splits \<open>s\<close> at the leftmost occurrence of \<open>pat\<close>:
  \<open>Some (before, after)\<close> with \<open>s = before @ pat @ after\<close>, or \<open>None\<close>.
\<close>

fun find_sub :: "string \<Rightarrow> string \<Rightarrow> (string \<times> string) option" where
  "find_sub pat [] = (if pat = [] then Some ([], []) else None)"
| "find_sub pat (c # cs) =
     (if prefix pat (c # cs) then Some ([], drop (length pat) (c # cs))
      else (case find_sub pat cs of
              None \<Rightarrow> None
            | Some (before, after) \<Rightarrow> Some (c # before, after)))"

text \<open>
  The leftmost match of the regular expression \<open>opening.*?closing\<close> (flag \<open>s\<close>, or
  \<open>[\s\S]*?\<close>): the leftmost \<open>opening\<close> and, lazily, the first \<open>closing\<close> after it.
  When no \<open>closing\<close> follows the leftmost \<open>opening\<close>, none follows a later one either,
  so there is no match at all.  The result is the text before the match and the text
  after it.
\<close>

definition find_block :: "string \<Rightarrow> string \<Rightarrow> string \<Rightarrow> (string \<times> string) option" where
  "find_block opening closing s =
     (case find_sub opening s of
        None \<Rightarrow> None
      | Some (before, rest) \<Rightarrow>
          (case find_sub closing rest of
             None \<Rightarrow> None
           | Some (inner, after) \<Rightarrow> Some (before, after)))"

text \<open>\<open>String.prototype.replace\<close> with a regular expression without the \<open>g\<close> flag.\<close>

definition replace_first_block :: "string \<Rightarrow> string \<Rightarrow> string \<Rightarrow> string \<Rightarrow> string" where
  "replace_first_block opening closing replacement s =
     (case find_block opening closing s of
        None \<Rightarrow> s
      | Some (before, after) \<Rightarrow> before @ replacement @ after)"

text \<open>
  The same with the \<open>g\<close> flag: after a match the search goes on behind it.  A match of
  a non-empty \<open>opening\<close> leaves a shorter rest (lemma \<open>find_block_shorter\<close>), so the
  guard of the recursion only matters for an empty pattern, which the code never uses.
\<close>

function replace_all_blocks :: "string \<Rightarrow> string \<Rightarrow> string \<Rightarrow> string \<Rightarrow> string" where
  "replace_all_blocks opening closing replacement s =
     (case find_block opening closing s of
        None \<Rightarrow> s
      | Some (before, after) \<Rightarrow>
          before @ replacement @
            (if length after < length s
             then replace_all_blocks opening closing replacement after
             else after))"
  by pat_completeness auto
termination
  by (relation "measure (\<lambda>(opening, closing, replacement, s). length s)") auto

declare replace_all_blocks.simps [simp del]

text \<open>
  What \<open>String.prototype.trim\<close> strips, among the characters up to \<open>0xFF\<close> that
  \<^typ>\<open>char\<close> has: TAB, LF, VT, FF, CR, SPACE and the no-break space.  (The
  other white space of JavaScript, \<open>U+FEFF\<close>, \<open>U+2028\<close>, \<open>U+2029\<close> and the
  rest of the space separators, lies above \<open>0xFF\<close>.)
\<close>

definition isWhiteSpace :: "char \<Rightarrow> bool" where
  "isWhiteSpace c \<longleftrightarrow>
     c \<in> set [CHR 0x09, CHR 0x0A, CHR 0x0B, CHR 0x0C, CHR 0x0D, CHR 0x20, CHR 0xA0]"

definition trim :: "string \<Rightarrow> string" where
  "trim s = rev (dropWhile isWhiteSpace (rev (dropWhile isWhiteSpace s)))"

fun join :: "string \<Rightarrow> string list \<Rightarrow> string" where
  "join sep [] = []"
| "join sep [x] = x"
| "join sep (x # y # ys) = x @ sep @ join sep (y # ys)"

section \<open>Message preprocessing (stream-text.ts, lines 106 to 131)\<close>

text \<open>
  The three patterns of the assistant branch.  In the first, the regular expression
  literal writes \<open>\\"\<close>, which matches a backslash followed by a double quote.
\<close>

definition boltThought_open :: string where
  \<open>boltThought_open =
     ''<div class='' @ [CHR 0x5C] @ ''"__boltThought__'' @ [CHR 0x5C] @ ''">''\<close>

definition boltThought_close :: string where
  "boltThought_close = ''</div>''"

definition think_open :: string where
  "think_open = ''<think>''"

definition think_close :: string where
  "think_close = ''</think>''"

definition packageLock_open :: string where
  \<open>packageLock_open = ''<boltAction type="file" filePath="package-lock.json">''\<close>

definition packageLock_close :: string where
  "packageLock_close = ''</boltAction>''"

definition packageLock_placeholder :: string where
  "packageLock_placeholder = ''[package-lock.json content removed]''"

text \<open>Lines 116 to 125: the rewriting of the content of an assistant message.\<close>

definition cleanAssistantContent :: "string \<Rightarrow> string" where
  "cleanAssistantContent c =
     (let c1 = replace_first_block boltThought_open boltThought_close [] c;
          c2 = replace_first_block think_open think_close [] c1;
          c3 = replace_all_blocks packageLock_open packageLock_close packageLock_placeholder c2
      in trim c3)"

text \<open>
  The callback of \<open>messages.map\<close>, with the two variables it assigns
  (\<open>currentModel\<close>, \<open>currentProvider\<close>) passed along from message to message.
\<close>

fun processMessages ::
  "collaborators \<Rightarrow> string \<times> string \<Rightarrow> message list \<Rightarrow> (string \<times> string) \<times> message list" where
  "processMessages cfg cur [] = (cur, [])"
| "processMessages cfg cur (m # ms) =
     (case role m of
        User \<Rightarrow>
          (case extractPropertiesFromMessage cfg m of (model, provider, c) \<Rightarrow>
             (case processMessages cfg (model, provider) ms of (cur', out) \<Rightarrow>
                (cur', m\<lparr>content := c\<rparr> # out)))
      | Assistant \<Rightarrow>
          (case processMessages cfg cur ms of (cur', out) \<Rightarrow>
             (cur', m\<lparr>content := cleanAssistantContent (content m)\<rparr> # out))
      | _ \<Rightarrow>
          (case processMessages cfg cur ms of (cur', out) \<Rightarrow> (cur', m # out)))"

text \<open>The model and provider names that reach the resolver, and the mapped messages.\<close>

definition resolverInputs :: "collaborators \<Rightarrow> message list \<Rightarrow> string \<times> string" where
  "resolverInputs cfg ms =
     fst (processMessages cfg (DEFAULT_MODEL cfg, name (DEFAULT_PROVIDER cfg)) ms)"

definition processedMessages :: "collaborators \<Rightarrow> message list \<Rightarrow> message list" where
  "processedMessages cfg ms =
     snd (processMessages cfg (DEFAULT_MODEL cfg, name (DEFAULT_PROVIDER cfg)) ms)"

section \<open>Provider and model resolution (stream-text.ts, lines 133 to 164)\<close>

definition resolveProvider :: "collaborators \<Rightarrow> string \<Rightarrow> provider_info" where
  "resolveProvider cfg currentProvider =
     (case find (\<lambda>p. name p = currentProvider) (PROVIDER_LIST cfg) of
        Some p \<Rightarrow> p
      | None \<Rightarrow> DEFAULT_PROVIDER cfg)"

text \<open>\<open>provider.staticModels || []\<close>\<close>

definition staticModelsOrEmpty :: "provider_info \<Rightarrow> model_info list" where
  "staticModelsOrEmpty p = (case staticModels p of None \<Rightarrow> [] | Some ms \<Rightarrow> ms)"

text \<open>
  Modelled from the spec: \<open>LLMManager.getStaticModelListFromProvider\<close> lives in
  \<open>~/lib/modules/llm/manager\<close>, which is not among the source files.  The spec (4.1,
  steps 2 and 3) has the resolver search "the provider's static model list" and then
  the combined list "static models ++ dynamically retrieved models": the manager's
  static list of a provider is that provider's own static models.
\<close>

definition getStaticModelListFromProvider :: "provider_info \<Rightarrow> model_info list" where
  "getStaticModelListFromProvider p = staticModelsOrEmpty p"

definition credentialsOf :: "props \<Rightarrow> credentials_bundle" where
  "credentialsOf ps =
     \<lparr>cb_apiKeys = apiKeys ps, cb_providerSettings = providerSettings ps, cb_serverEnv = env ps\<rparr>"

definition noModelsError :: "provider_info \<Rightarrow> error" where
  "noModelsError p = Error (''No models found for provider '' @ name p)"

definition fallbackWarning :: "string \<Rightarrow> provider_info \<Rightarrow> model_info \<Rightarrow> log_entry" where
  "fallbackWarning currentModel p first =
     Warn (''MODEL ['' @ currentModel @ ''] not found in provider ['' @ name p @
           '']. Falling back to first model. '' @ mi_name first)"

text \<open>
  Lines 133 to 159.  The result is the provider, the model descriptor and the warning
  logged on the way, or the error thrown (by the code, or by the dynamic fetch).
\<close>

definition resolveModel ::
  "collaborators \<Rightarrow> credentials_bundle \<Rightarrow> string \<Rightarrow> string \<Rightarrow>
     error + (log_entry list \<times> provider_info \<times> model_info)" where
  "resolveModel cfg creds currentModel currentProvider =
     (let provider = resolveProvider cfg currentProvider;
          statics = getStaticModelListFromProvider provider
      in case find (\<lambda>m. mi_name m = currentModel) statics of
           Some modelDetails \<Rightarrow> Inr ([], provider, modelDetails)
         | None \<Rightarrow>
             (case getModelListFromProvider cfg provider creds of
                Inl e \<Rightarrow> Inl e
              | Inr fetched \<Rightarrow>
                  (case staticModelsOrEmpty provider @ fetched of
                     [] \<Rightarrow> Inl (noModelsError provider)
                   | first # others \<Rightarrow>
                       (case find (\<lambda>m. mi_name m = currentModel) (first # others) of
                          Some modelDetails \<Rightarrow> Inr ([], provider, modelDetails)
                        | None \<Rightarrow>
                            Inr ([fallbackWarning currentModel provider first],
                                 provider, first)))))"

text \<open>Line 161: \<open>modelDetails?.maxTokenAllowed || MAX_TOKENS\<close>\<close>

definition dynamicMaxTokens :: "collaborators \<Rightarrow> model_info \<Rightarrow> int" where
  "dynamicMaxTokens cfg modelDetails =
     (case maxTokenAllowed modelDetails of
        None \<Rightarrow> MAX_TOKENS cfg
      | Some n \<Rightarrow> if n \<noteq> 0 then n else MAX_TOKENS cfg)"

definition maxTokensInfo :: "collaborators \<Rightarrow> model_info \<Rightarrow> log_entry" where
  "maxTokensInfo cfg modelDetails =
     Info (''Max tokens for model '' @ mi_name modelDetails @ '' is '' @
           numberToString (dynamicMaxTokens cfg modelDetails) @ '' based on '' @
           (case maxTokenAllowed modelDetails of
              None \<Rightarrow> ''undefined''
            | Some n \<Rightarrow> numberToString n) @
           '' or '' @ numberToString (MAX_TOKENS cfg))"

section \<open>Prompt assembly (stream-text.ts, lines 35 to 67 and 166 to 234)\<close>

text \<open>
  The template literal of \<open>getPatchPrompt\<close>, cut at its five interpolations: the
  modification tag is interpolated as \<open><tag>\<close> twice (rule 4 and the head of the
  example) and as \<open></tag>\<close> once, the working directory once.
\<close>

definition patchPrompt_intro :: string where
  \<open>patchPrompt_intro =
     ''You are an expert AI programmer specializing in code modification. Your task is to act as an automated code editing tool.'' @ NL @
     ''You will be given a user request and the content of relevant files.'' @ NL @
     ''Your SOLE an ONLY output format MUST be a unified diff format, contained within a specific XML-like tag.'' @ NL @
     NL @
     ''You MUST follow these rules:'' @ NL @
     ''1.  Analyze the user's request to understand the required changes.'' @ NL @
     ''2.  Analyze the provided file content within the 'CONTEXT BUFFER'.'' @ NL @
     ''3.  Generate a set of changes in the unified diff format.'' @ NL @
     ''4.  Wrap the entire response in a ''\<close>

definition patchPrompt_rules :: string where
  \<open>patchPrompt_rules =
     '' tag.'' @ NL @
     ''5.  Inside this tag, each file modification must be wrapped in a <diff path="path/to/file"> tag.'' @ NL @
     ''6.  The content inside the <diff> tag must be a valid unified diff, starting with '@@ ... @@'.'' @ NL @
     ''7.  DO NOT include the '---' or '+++' file headers in the diff content. The patch application system will handle this.'' @ NL @
     ''8.  DO NOT output any conversational text, explanations, or code blocks. Your response must ONLY be the diff itself.'' @ NL @
     NL @
     ''Here is an example of a PERFECT response:'' @ NL @
     NL\<close>

definition patchPrompt_example :: string where
  \<open>patchPrompt_example =
     NL @
     ''<diff path="src/components/ui/Button.tsx">'' @ NL @
     ''@@ -10,7 +10,7 @@'' @ NL @
     ''   return ('' @ NL @
     ''     <button'' @ NL @
     ''       className={cn(buttonVariants({ variant, size, className }))}'' @ NL @
     ''-      ref={ref}'' @ NL @
     ''+      ref={ref} // Add a reference to the button'' @ NL @
     ''       {...props}'' @ NL @
     ''     />'' @ NL @
     ''   );'' @ NL @
     ''</diff>'' @ NL\<close>

definition patchPrompt_begin :: string where
  \<open>patchPrompt_begin =
     NL @
     NL @
     ''Begin! The user's files are located in the '' @ [CHR 0x27]\<close>

definition patchPrompt_end :: string where
  \<open>patchPrompt_end =
     [CHR 0x27] @ '' directory.''\<close>

definition openingTag :: "string \<Rightarrow> string" where
  "openingTag tag = ''<'' @ tag @ ''>''"

definition closingTag :: "string \<Rightarrow> string" where
  "closingTag tag = ''</'' @ tag @ ''>''"

definition getPatchPrompt :: "string \<Rightarrow> string \<Rightarrow> string" where
  "getPatchPrompt modificationTagName cwd =
     patchPrompt_intro @ openingTag modificationTagName @
     patchPrompt_rules @ openingTag modificationTagName @
     patchPrompt_example @ closingTag modificationTagName @
     patchPrompt_begin @ cwd @ patchPrompt_end"

text \<open>Truthiness of an optional string, boolean and number.\<close>

definition truthyString :: "string option \<Rightarrow> bool" where
  "truthyString s = (case s of None \<Rightarrow> False | Some t \<Rightarrow> t \<noteq> [])"

definition truthyBool :: "bool option \<Rightarrow> bool" where
  "truthyBool b = (case b of None \<Rightarrow> False | Some t \<Rightarrow> t)"

definition truthyNumber :: "int option \<Rightarrow> bool" where
  "truthyNumber n = (case n of None \<Rightarrow> False | Some k \<Rightarrow> k \<noteq> 0)"

definition supabaseParams :: "props \<Rightarrow> supabase_params" where
  "supabaseParams ps =
     (case options ps of
        None \<Rightarrow> \<lparr>sp_isConnected = False, sp_hasSelectedProject = False, sp_credentials = None\<rparr>
      | Some opts \<Rightarrow>
          (case supabaseConnection opts of
             None \<Rightarrow>
               \<lparr>sp_isConnected = False, sp_hasSelectedProject = False, sp_credentials = None\<rparr>
           | Some conn \<Rightarrow>
               \<lparr>sp_isConnected = isConnected conn,
                sp_hasSelectedProject = hasSelectedProject conn,
                sp_credentials = credentials conn\<rparr>))"

text \<open>Lines 169 to 194: the prompt chosen by the chat mode.\<close>

definition selectSystemPrompt :: "collaborators \<Rightarrow> props \<Rightarrow> string" where
  "selectSystemPrompt cfg ps =
     (case chatMode ps of
        Some Patch \<Rightarrow> getPatchPrompt (MODIFICATIONS_TAG_NAME cfg) (WORK_DIR cfg)
      | Some Discuss \<Rightarrow> discussPrompt cfg
      | _ \<Rightarrow>
          (case getPropmtFromLibrary cfg
                  (if truthyString (promptId ps) then the (promptId ps) else ''default'')
                  \<lparr>pp_cwd = WORK_DIR cfg,
                   pp_allowedHtmlElements = allowedHTMLElements cfg,
                   pp_modificationTagName = MODIFICATIONS_TAG_NAME cfg,
                   pp_designScheme = designScheme ps,
                   pp_supabase = supabaseParams ps\<rparr> of
             Some prompt \<Rightarrow> prompt
           | None \<Rightarrow> getSystemPrompt cfg))"

definition contextBufferBlock :: "string \<Rightarrow> string" where
  "contextBufferBlock codeContext =
     NL @ NL @
     ''Below is the artifact containing the context loaded into context buffer for you to have knowledge of and might need changes to fullfill current user request.'' @ NL @
     ''CONTEXT BUFFER:'' @ NL @
     ''---'' @ NL @
     codeContext @ NL @
     ''---''"

definition chatSummaryBlock :: "string \<Rightarrow> string" where
  "chatSummaryBlock s =
     NL @ NL @
     ''_below is the chat history till now_'' @ NL @
     ''CHAT SUMMARY:'' @ NL @
     ''---'' @ NL @
     s @ NL @
     ''---''"

text \<open>
  \<open>Array.prototype.slice(k)\<close>: a negative \<open>k\<close> counts from the end, and a start
  before the first element is the first element.
\<close>

definition slice :: "int \<Rightarrow> 'a list \<Rightarrow> 'a list" where
  "slice k xs =
     drop (nat (if k < 0 then max (int (length xs) + k) 0 else k)) xs"

text \<open>Lines 209 to 212: \<open>pop\<close>, and the list of the popped message when there is one.\<close>

definition lastMessageOnly :: "'a list \<Rightarrow> 'a list" where
  "lastMessageOnly xs = (case xs of [] \<Rightarrow> [] | _ # _ \<Rightarrow> [last xs])"

definition contextEnabled :: "props \<Rightarrow> bool" where
  "contextEnabled ps \<longleftrightarrow>
     (chatMode ps = Some Build \<or> chatMode ps = Some Patch) \<and>
     contextFiles ps \<noteq> None \<and> truthyBool (contextOptimization ps)"

text \<open>Lines 198 to 215, on the prompt and the mapped messages.\<close>

definition applyContext ::
  "collaborators \<Rightarrow> props \<Rightarrow> string \<Rightarrow> message list \<Rightarrow> string \<times> message list" where
  "applyContext cfg ps systemPrompt msgs =
     (if contextEnabled ps then
        (let codeContext = createFilesContext cfg (the (contextFiles ps)) True;
             withContext = systemPrompt @ contextBufferBlock codeContext
         in if truthyString (summary ps) then
              (withContext @ chatSummaryBlock (the (summary ps)),
               if truthyNumber (messageSliceId ps)
               then slice (the (messageSliceId ps)) msgs
               else lastMessageOnly msgs)
            else (withContext, msgs))
      else (systemPrompt, msgs))"

text \<open>
  Lines 217 to 225.  A JavaScript \<open>Set\<close> keeps its elements in insertion order and
  ignores the insertion of an element it has.
\<close>

definition setAdd :: "'a \<Rightarrow> 'a list \<Rightarrow> 'a list" where
  "setAdd x xs = (if x \<in> set xs then xs else xs @ [x])"

definition fileIsLocked :: "dirent option \<Rightarrow> bool" where
  "fileIsLocked fileDetails =
     (case fileDetails of None \<Rightarrow> False | Some d \<Rightarrow> truthyBool (isLocked d))"

fun collectLocked :: "string list \<Rightarrow> file_map \<Rightarrow> string list" where
  "collectLocked acc [] = acc"
| "collectLocked acc ((filePath, fileDetails) # entries) =
     collectLocked (if fileIsLocked fileDetails then setAdd filePath acc else acc) entries"

definition effectiveLockedFilePaths :: "file_map option \<Rightarrow> string list" where
  "effectiveLockedFilePaths fs = (case fs of None \<Rightarrow> [] | Some entries \<Rightarrow> collectLocked [] entries)"

definition lockedFilesNotice :: "string list \<Rightarrow> string" where
  "lockedFilesNotice paths =
     NL @ NL @
     ''IMPORTANT: The following files are locked and MUST NOT be modified in any way. Do not suggest or make any changes to these files. You can proceed with the request but DO NOT make any changes to these files specifically:'' @ NL @
     join NL (map (\<lambda>filePath. ''- '' @ filePath) paths) @ NL @
     ''---''"

text \<open>Lines 227 to 234.\<close>

definition appendLockedNotice :: "file_map option \<Rightarrow> string \<Rightarrow> string \<times> log_entry list" where
  "appendLockedNotice fs systemPrompt =
     (let locked = effectiveLockedFilePaths fs
      in if length locked > 0 then (systemPrompt @ lockedFilesNotice locked, [])
         else (systemPrompt, [ConsoleLog ''No locked files found from any source for prompt.'']))"

text \<open>
  The values of \<open>systemPrompt\<close> and \<open>processedMessages\<close> at line 236, with the
  console output of the last step.
\<close>

definition assemble ::
  "collaborators \<Rightarrow> props \<Rightarrow> string \<times> message list \<times> log_entry list" where
  "assemble cfg ps =
     (case applyContext cfg ps (selectSystemPrompt cfg ps) (processedMessages cfg (messages ps)) of
        (withContext, msgs) \<Rightarrow>
          (case appendLockedNotice (files ps) withContext of
             (systemPrompt, logs) \<Rightarrow> (systemPrompt, msgs, logs)))"

definition systemPromptOf :: "collaborators \<Rightarrow> props \<Rightarrow> string" where
  "systemPromptOf cfg ps = fst (assemble cfg ps)"

definition messagesOf :: "collaborators \<Rightarrow> props \<Rightarrow> message list" where
  "messagesOf cfg ps = fst (snd (assemble cfg ps))"

section \<open>The call of the SDK (stream-text.ts, lines 236 to 249)\<close>

text \<open>
  The argument of \<open>_streamText\<close>: the provider and model name given to
  \<open>getModelInstance\<close>, the system prompt, the token cap and the messages given to
  \<open>convertToCoreMessages\<close>.  The spread \<open>...options\<close> comes last in the object
  literal, so a property of \<open>options\<close> replaces the assembled one.
\<close>

record llm_request =
  rq_provider :: provider_info
  rq_model :: string
  rq_system :: string
  rq_maxTokens :: int
  rq_messages :: "message list"

definition overridden :: "streaming_options option \<Rightarrow> (streaming_options \<Rightarrow> 'a option) \<Rightarrow> 'a \<Rightarrow> 'a" where
  "overridden opts field assembled =
     (case opts of
        None \<Rightarrow> assembled
      | Some os \<Rightarrow> (case field os of None \<Rightarrow> assembled | Some v \<Rightarrow> v))"

definition sendingInfo :: "provider_info \<Rightarrow> model_info \<Rightarrow> log_entry" where
  "sendingInfo p modelDetails =
     Info (''Sending llm call to '' @ name p @ '' with model '' @ mi_name modelDetails)"

text \<open>Lines 133 to 249, for the model and provider names left by the message loop.\<close>

definition resolveAndSend ::
  "collaborators \<Rightarrow> props \<Rightarrow> string \<times> string \<Rightarrow> error + (log_entry list \<times> llm_request)" where
  "resolveAndSend cfg ps names =
     (case names of (currentModel, currentProvider) \<Rightarrow>
        (case resolveModel cfg (credentialsOf ps) currentModel currentProvider of
           Inl e \<Rightarrow> Inl e
         | Inr (warnings, provider, modelDetails) \<Rightarrow>
             (case assemble cfg ps of (systemPrompt, msgs, logs) \<Rightarrow>
                Inr (warnings @ [maxTokensInfo cfg modelDetails] @ logs @
                       [sendingInfo provider modelDetails],
                     \<lparr>rq_provider = provider,
                      rq_model = mi_name modelDetails,
                      rq_system = overridden (options ps) opt_system systemPrompt,
                      rq_maxTokens =
                        overridden (options ps) opt_maxTokens (dynamicMaxTokens cfg modelDetails),
                      rq_messages = overridden (options ps) opt_messages msgs\<rparr>))))"

text \<open>
  \<open>streamText\<close>: the logged lines and the argument of the SDK call, or the error
  thrown.
\<close>

definition streamText :: "collaborators \<Rightarrow> props \<Rightarrow> error + (log_entry list \<times> llm_request)" where
  "streamText cfg ps = resolveAndSend cfg ps (resolverInputs cfg (messages ps))"

section \<open>The settings store (lib/stores/settings)\<close>

text \<open>
  What the module reads from its surroundings: whether it runs in a browser, the
  content of \<open>localStorage\<close> (an object from keys to strings, \<open>getItem\<close> giving
  \<open>null\<close> for a missing key), and \<open>JSON.parse\<close>, which is \<open>None\<close> where it throws
  a \<open>SyntaxError\<close>.  \<open>PROVIDER_LIST\<close> and \<open>DEFAULT_TAB_CONFIG\<close> come from modules
  outside these source files and are arguments of the functions that use them.
\<close>

record page =
  isBrowser :: bool
  JSON_parse :: "string \<Rightarrow> json option"
  localStorage :: "(string \<times> string) list"

text \<open>Assignment to a property of an object kept as the list of its entries.\<close>

fun objSet :: "string \<Rightarrow> 'v \<Rightarrow> (string \<times> 'v) list \<Rightarrow> (string \<times> 'v) list" where
  "objSet k v [] = [(k, v)]"
| "objSet k v ((k', v') # kvs) =
     (if k' = k then (k, v) # kvs else (k', v') # objSet k v kvs)"

definition getItem :: "(string \<times> string) list \<Rightarrow> string \<Rightarrow> string option" where
  "getItem storage key = map_of storage key"

text \<open>
  \<open>Object.entries\<close> of a parsed value: it throws on \<open>null\<close>, enumerates the indices
  of an array and of a string, and finds nothing in a number or a boolean.
\<close>

definition indexKeys :: "nat \<Rightarrow> string list" where
  "indexKeys n = map decimal [0..<n]"

fun entriesOf :: "json \<Rightarrow> error + (string \<times> json) list" where
  "entriesOf JNull = Inl TypeError"
| "entriesOf (JObj kvs) = Inr kvs"
| "entriesOf (JArr xs) = Inr (zip (indexKeys (length xs)) xs)"
| "entriesOf (JStr s) = Inr (zip (indexKeys (length s)) (map (\<lambda>c. JStr [c]) s))"
| "entriesOf (JBool b) = Inr []"
| "entriesOf (JNum n) = Inr []"

text \<open>
  Reading a property with a name that is neither an index nor built in (\<open>settings\<close>,
  \<open>userTabs\<close>, \<open>developerTabs\<close>, \<open>window\<close>): it throws on \<open>null\<close>, looks the
  name up in an object and is \<open>undefined\<close> on every other value.
\<close>

fun getProp :: "json \<Rightarrow> string \<Rightarrow> error + json option" where
  "getProp JNull k = Inl TypeError"
| "getProp (JObj kvs) k = Inr (map_of kvs k)"
| "getProp v k = Inr None"

definition PROVIDER_SETTINGS_KEY :: string where
  "PROVIDER_SETTINGS_KEY = ''provider_settings''"

definition LOCAL_PROVIDERS :: "string list" where
  "LOCAL_PROVIDERS = [''OpenAILike'', ''LMStudio'', ''Ollama'']"

definition SELECTED_PROVIDER :: string where
  "SELECTED_PROVIDER = ''selectedProvider''"

definition SELECTED_MODEL :: string where
  "SELECTED_MODEL = ''selectedModel''"

definition TAB_CONFIGURATION :: string where
  "TAB_CONFIGURATION = ''bolt_tab_configuration''"

type_synonym provider_setting = "(string \<times> provider_info) list"

text \<open>Lines 61 to 69: one entry for each provider, enabled unless it is a local one.\<close>

definition defaultProviderSettings :: "provider_info list \<Rightarrow> provider_setting" where
  "defaultProviderSettings providerList =
     foldl (\<lambda>initialSettings provider.
              objSet (name provider)
                (provider\<lparr>settings :=
                   Some (JObj [(''enabled'', JBool (name provider \<notin> set LOCAL_PROVIDERS))])\<rparr>)
                initialSettings)
           [] providerList"

text \<open>
  The names that every object inherits from \<open>Object.prototype\<close>: for them
  \<open>initialSettings[key]\<close> is truthy although \<open>initialSettings\<close> has no entry of
  its own.
\<close>

definition objectPrototypeNames :: "string list" where
  "objectPrototypeNames =
     [''__proto__'', ''constructor'', ''hasOwnProperty'', ''isPrototypeOf'',
      ''propertyIsEnumerable'', ''toLocaleString'', ''toString'', ''valueOf'',
      ''__defineGetter__'', ''__defineSetter__'', ''__lookupGetter__'', ''__lookupSetter__'']"

text \<open>
  Lines 76 to 80: the \<open>forEach\<close> over the parsed entries.  Reading \<open>.settings\<close> of a
  \<open>null\<close> value throws in the middle of the loop; the entries assigned before stay
  assigned, since the loop writes into \<open>initialSettings\<close> itself.  For an inherited
  name the right-hand side is read as well (and throws on \<open>null\<close>); the assignment
  then lands on the inherited object, which is outside the model, and leaves the
  entries of \<open>initialSettings\<close> as they are.
\<close>

fun applySavedSettings ::
  "provider_setting \<Rightarrow> (string \<times> json) list \<Rightarrow> error option \<times> provider_setting" where
  "applySavedSettings initialSettings [] = (None, initialSettings)"
| "applySavedSettings initialSettings ((key, v) # entries) =
     (case map_of initialSettings key of
        None \<Rightarrow>
          (if key \<in> set objectPrototypeNames then
             (case getProp v ''settings'' of
                Inl e \<Rightarrow> (Some e, initialSettings)
              | Inr saved \<Rightarrow> applySavedSettings initialSettings entries)
           else applySavedSettings initialSettings entries)
      | Some config \<Rightarrow>
          (case getProp v ''settings'' of
             Inl e \<Rightarrow> (Some e, initialSettings)
           | Inr saved \<Rightarrow>
               applySavedSettings (objSet key (config\<lparr>settings := saved\<rparr>) initialSettings)
                 entries))"

definition parsingError :: "error \<Rightarrow> log_entry" where
  "parsingError e = ConsoleError ''Error parsing provider settings:'' e"

text \<open>Lines 60 to 87: the console output and the value returned.\<close>

definition getInitialProviderSettings ::
  "page \<Rightarrow> provider_info list \<Rightarrow> log_entry list \<times> provider_setting" where
  "getInitialProviderSettings pg providerList =
     (let initialSettings = defaultProviderSettings providerList
      in if isBrowser pg then
           (case getItem (localStorage pg) PROVIDER_SETTINGS_KEY of
              None \<Rightarrow> ([], initialSettings)
            | Some savedSettings \<Rightarrow>
                if savedSettings = [] then ([], initialSettings)
                else
                  (case JSON_parse pg savedSettings of
                     None \<Rightarrow> ([parsingError SyntaxError], initialSettings)
                   | Some parsed \<Rightarrow>
                       (case entriesOf parsed of
                          Inl e \<Rightarrow> ([parsingError e], initialSettings)
                        | Inr entries \<Rightarrow>
                            (case applySavedSettings initialSettings entries of
                               (None, updated) \<Rightarrow> ([], updated)
                             | (Some e, updated) \<Rightarrow> ([parsingError e], updated)))))
         else ([], initialSettings))"

text \<open>
  The tab configuration.  A tab is a JSON value; the entries of \<open>DEFAULT_TAB_CONFIG\<close>
  are objects.
\<close>

record tab_window_config =
  userTabs :: "json list"
  developerTabs :: "json list"

text \<open>\<open>tab.window === w\<close>, which throws when the tab is \<open>null\<close>.\<close>

definition windowIs :: "string \<Rightarrow> json \<Rightarrow> error + bool" where
  "windowIs w tab =
     (case getProp tab ''window'' of
        Inl e \<Rightarrow> Inl e
      | Inr v \<Rightarrow> Inr (v = Some (JStr w)))"

fun filterTabs :: "string \<Rightarrow> json list \<Rightarrow> error + json list" where
  "filterTabs w [] = Inr []"
| "filterTabs w (tab # tabs) =
     (case windowIs w tab of
        Inl e \<Rightarrow> Inl e
      | Inr keep \<Rightarrow>
          (case filterTabs w tabs of
             Inl e \<Rightarrow> Inl e
           | Inr rest \<Rightarrow> Inr (if keep then tab # rest else rest)))"

text \<open>
  \<open>parsed.key.filter(...)\<close>: only an array has a \<open>filter\<close> method, every other value
  of the property (and a missing property) throws.
\<close>

definition filterProperty :: "json \<Rightarrow> string \<Rightarrow> string \<Rightarrow> error + json list" where
  "filterProperty parsed key w =
     (case getProp parsed key of
        Inl e \<Rightarrow> Inl e
      | Inr (Some (JArr tabs)) \<Rightarrow> filterTabs w tabs
      | Inr _ \<Rightarrow> Inl TypeError)"

definition defaultTabConfiguration :: "json list \<Rightarrow> tab_window_config" where
  "defaultTabConfiguration defaults =
     \<lparr>userTabs = filter (\<lambda>tab. windowIs ''user'' tab = Inr True) defaults,
      developerTabs = filter (\<lambda>tab. windowIs ''developer'' tab = Inr True) defaults\<rparr>"

text \<open>Lines 189 to 206: the console output (there is none) and the value returned.\<close>

definition getInitialTabConfiguration ::
  "page \<Rightarrow> json list \<Rightarrow> log_entry list \<times> tab_window_config" where
  "getInitialTabConfiguration pg defaults =
     (let defaultConfig = defaultTabConfiguration defaults
      in if \<not> isBrowser pg then ([], defaultConfig)
         else
           (case getItem (localStorage pg) TAB_CONFIGURATION of
              None \<Rightarrow> ([], defaultConfig)
            | Some saved \<Rightarrow>
                if saved = [] then ([], defaultConfig)
                else
                  (case JSON_parse pg saved of
                     None \<Rightarrow> ([], defaultConfig)
                   | Some parsed \<Rightarrow>
                       (case filterProperty parsed ''userTabs'' ''user'' of
                          Inl e \<Rightarrow> ([], defaultConfig)
                        | Inr us \<Rightarrow>
                            (case filterProperty parsed ''developerTabs'' ''developer'' of
                               Inl e \<Rightarrow> ([], defaultConfig)
                             | Inr ds \<Rightarrow> ([], \<lparr>userTabs = us, developerTabs = ds\<rparr>))))))"




text \<open>
  The settings store together with the \<open>localStorage\<close> its listener writes to.
  \<open>selectedProvider\<close> has the type \<open>IProviderConfig | undefined\<close>.
\<close>

record settings_state =
  st_providers :: "provider_info list"
  st_models :: "(string \<times> model_info list) list"
  selectedProvider :: "provider_info option"
  selectedModel :: string
  st_providerSettings :: provider_setting
  st_storage :: "(string \<times> string) list"


text \<open>Lines 151 to 160: the listener, run when the store notifies a change.\<close>

definition listener :: "page \<Rightarrow> settings_state \<Rightarrow> settings_state" where
  "listener pg currentValue =
     (if isBrowser pg then
        (let s1 = (case selectedProvider currentValue of
                     None \<Rightarrow> currentValue
                   | Some p \<Rightarrow>
                       currentValue\<lparr>st_storage :=
                         objSet SELECTED_PROVIDER (name p) (st_storage currentValue)\<rparr>)
         in if selectedModel s1 \<noteq> []
            then s1\<lparr>st_storage := objSet SELECTED_MODEL (selectedModel s1) (st_storage s1)\<rparr>
            else s1)
      else currentValue)"

section \<open>The selector (components/chat/ModelSelector.tsx)\<close>

text \<open>Line 37: \<open>provider.defaultModel || provider.models?.[0]?.name || ''\<close>\<close>

definition modelOnProviderSelect :: "provider_info \<Rightarrow> string" where
  "modelOnProviderSelect provider =
     (if truthyString (defaultModel provider) then the (defaultModel provider)
      else (case models provider of
              Some (first # _) \<Rightarrow> mi_name first
            | _ \<Rightarrow> []))"

text \<open>
  \<open>settingsStore.setKey\<close> for the two keys the selector writes.  The map store of
  nanostores (a library, outside these source files) replaces the value and notifies
  its listeners only when the new value is not the old one; the identity of a provider
  object is rendered as equality of the descriptors.
\<close>

definition setSelectedProvider :: "page \<Rightarrow> provider_info \<Rightarrow> settings_state \<Rightarrow> settings_state" where
  "setSelectedProvider pg provider st =
     (if selectedProvider st = Some provider then st
      else listener pg (st\<lparr>selectedProvider := Some provider\<rparr>))"

definition setSelectedModel :: "page \<Rightarrow> string \<Rightarrow> settings_state \<Rightarrow> settings_state" where
  "setSelectedModel pg modelName st =
     (if selectedModel st = modelName then st
      else listener pg (st\<lparr>selectedModel := modelName\<rparr>))"

text \<open>
  Lines 35 to 47, on the settings store.  The dropdown and search state of the
  component and the effect of the \<open>onFetchModels\<close> callback are not part of the store.
\<close>

definition handleProviderSelect :: "page \<Rightarrow> provider_info \<Rightarrow> settings_state \<Rightarrow> settings_state" where
  "handleProviderSelect pg provider st =
     setSelectedModel pg (modelOnProviderSelect provider) (setSelectedProvider pg provider st)"

definition handleModelSelect :: "page \<Rightarrow> string \<Rightarrow> settings_state \<Rightarrow> settings_state" where
  "handleModelSelect pg modelName st = setSelectedModel pg modelName st"








section \<open>Notions used to state the properties\<close>



text \<open>The value of a property of the optional \<open>options\<close> object, if it has one.\<close>

definition optionsProperty :: "props \<Rightarrow> (streaming_options \<Rightarrow> 'a option) \<Rightarrow> 'a option" where
  "optionsProperty ps field = (case options ps of None \<Rightarrow> None | Some os \<Rightarrow> field os)"


text \<open>The locked paths of a files map, in the order of its entries.\<close>

definition lockedPaths :: "file_map \<Rightarrow> string list" where
  "lockedPaths entries = map fst (filter (\<lambda>(filePath, fileDetails). fileIsLocked fileDetails) entries)"

text \<open>What the last stage appends to the prompt.\<close>

definition lockedBlock :: "file_map option \<Rightarrow> string" where
  "lockedBlock fs =
     (if effectiveLockedFilePaths fs = [] then []
      else lockedFilesNotice (effectiveLockedFilePaths fs))"

text \<open>None of the three patterns of the assistant branch matches in the content.\<close>

definition markerFree :: "string \<Rightarrow> bool" where
  "markerFree c \<longleftrightarrow>
     find_block boltThought_open boltThought_close c = None \<and>
     find_block think_open think_close c = None \<and>
     find_block packageLock_open packageLock_close c = None"



section \<open>The markup of the patch prompt\<close>















section \<open>A small configuration for concrete runs\<close>

definition modelAlpha :: model_info where
  "modelAlpha =
     \<lparr>mi_name = ''alpha'', mi_label = ''Alpha'', mi_provider = ''Acme'',
      maxTokenAllowed = Some 4096\<rparr>"

definition modelBeta :: model_info where
  "modelBeta =
     \<lparr>mi_name = ''beta'', mi_label = ''Beta'', mi_provider = ''Acme'',
      maxTokenAllowed = None\<rparr>"

definition providerAcme :: provider_info where
  "providerAcme =
     \<lparr>name = ''Acme'', staticModels = Some [modelAlpha], defaultModel = Some ''alpha'',
      models = Some [modelAlpha], isConfigurable = Some False, settings = None\<rparr>"

definition providerBare :: provider_info where
  "providerBare =
     \<lparr>name = ''Bare'', staticModels = None, defaultModel = None,
      models = None, isConfigurable = Some True, settings = None\<rparr>"

text \<open>
  In this configuration a user message reads \<open>model@provider\<close>, provider Acme has
  the static model alpha and the fetched model beta, provider Bare has no model.
\<close>

definition exampleCollaborators :: collaborators where
  "exampleCollaborators =
     \<lparr>DEFAULT_MODEL = ''alpha'',
      DEFAULT_PROVIDER = providerAcme,
      PROVIDER_LIST = [providerAcme, providerBare],
      MAX_TOKENS = 8000,
      MODIFICATIONS_TAG_NAME = ''bolt_file_modifications'',
      WORK_DIR = ''/home/project'',
      allowedHTMLElements = [],
      extractPropertiesFromMessage =
        (\<lambda>m. (takeWhile (\<lambda>c. c \<noteq> CHR ''@'') (content m),
              drop 1 (dropWhile (\<lambda>c. c \<noteq> CHR ''@'') (content m)),
              content m)),
      getModelListFromProvider =
        (\<lambda>p creds. if name p = ''Acme'' then Inr [modelBeta] else Inr []),
      getPropmtFromLibrary =
        (\<lambda>promptId params. if promptId = ''default'' then Some ''You are Bolt.'' else None),
      getSystemPrompt = ''Baseline prompt.'',
      discussPrompt = ''Discuss.'',
      createFilesContext = (\<lambda>fs flag. concat (map fst fs))\<rparr>"

definition exampleProps :: props where
  "exampleProps =
     \<lparr>messages = [], env = None, options = None, apiKeys = None, files = None,
      providerSettings = None, promptId = None, contextOptimization = None,
      contextFiles = None, summary = None, messageSliceId = None, chatMode = None,
      designScheme = None\<rparr>"

definition userMessage :: "string \<Rightarrow> message" where
  "userMessage c = \<lparr>role = User, content = c\<rparr>"

definition assistantMessage :: "string \<Rightarrow> message" where
  "assistantMessage c = \<lparr>role = Assistant, content = c\<rparr>"



definition cappedProps :: props where
  "cappedProps =
     exampleProps\<lparr>messages := [userMessage ''alpha@Acme''],
                  options := Some \<lparr>supabaseConnection = None, opt_system = None,
                                   opt_maxTokens = Some 512, opt_messages = None\<rparr>\<rparr>"

definition unknownAtAcme :: props where
  "unknownAtAcme = exampleProps\<lparr>messages := [userMessage ''gamma@Acme'']\<rparr>"

definition unknownAtBare :: props where
  "unknownAtBare = exampleProps\<lparr>messages := [userMessage ''gamma@Bare'']\<rparr>"

definition lockedFile :: dirent where
  "lockedFile = \<lparr>kind = ''file'', fileContent = ''x'', isLocked = Some True\<rparr>"

definition openFile :: dirent where
  "openFile = \<lparr>kind = ''file'', fileContent = ''y'', isLocked = None\<rparr>"

definition lockedProps :: props where
  "lockedProps =
     exampleProps\<lparr>chatMode := Some Discuss,
                  files := Some [(''a.ts'', Some lockedFile), (''b.ts'', Some openFile),
                                 (''c.ts'', None), (''d.ts'', Some lockedFile)]\<rparr>"


definition paddedText :: string where
  "paddedText = ''  hello <think> world '' @ NL"

section \<open>A small page for concrete runs of the settings store\<close>

text \<open>
  A stand-in for \<open>JSON.parse\<close> that agrees with it on the strings used below and
  rejects every other string.
\<close>

definition exampleParse :: "string \<Rightarrow> json option" where
  \<open>exampleParse s =
     (if s = ''{}'' then Some (JObj [])
      else if s = ''null'' then Some JNull
      else if s = ''{"Acme":{"settings":{"enabled":false}}}''
      then Some (JObj [(''Acme'', JObj [(''settings'', JObj [(''enabled'', JBool False)])])])
      else None)\<close>

definition exampleTabs :: "json list" where
  "exampleTabs =
     [JObj [(''id'', JStr ''features''), (''window'', JStr ''user'')],
      JObj [(''id'', JStr ''debug''), (''window'', JStr ''developer'')]]"

definition brokenPage :: page where
  "brokenPage =
     \<lparr>isBrowser = True, JSON_parse = exampleParse,
      localStorage = [(PROVIDER_SETTINGS_KEY, ''{oops''), (TAB_CONFIGURATION, ''{oops'')]\<rparr>"






section \<open>Verified properties\<close>

subsection \<open>Which model and provider names reach the resolver\<close>





subsection \<open>Resolution of the model and the token cap\<close>

lemma overridden_None: "optionsProperty ps field = None \<Longrightarrow> overridden (options ps) field v = v"
  by (simp add: optionsProperty_def overridden_def split: option.splits)

lemma overridden_Some: "optionsProperty ps field = Some w \<Longrightarrow> overridden (options ps) field v = w"
  by (auto simp: optionsProperty_def overridden_def split: option.splits)

lemma streamText_resolved:
  assumes "resolverInputs cfg (messages ps) = (currentModel, currentProvider)"
      and "resolveModel cfg (credentialsOf ps) currentModel currentProvider =
             Inr (warnings, provider, modelDetails)"
  shows "streamText cfg ps =
           Inr (warnings @ [maxTokensInfo cfg modelDetails] @ snd (snd (assemble cfg ps)) @
                  [sendingInfo provider modelDetails],
                \<lparr>rq_provider = provider,
                 rq_model = mi_name modelDetails,
                 rq_system = overridden (options ps) opt_system (systemPromptOf cfg ps),
                 rq_maxTokens =
                   overridden (options ps) opt_maxTokens (dynamicMaxTokens cfg modelDetails),
                 rq_messages = overridden (options ps) opt_messages (messagesOf cfg ps)\<rparr>)"
  using assms
  by (simp add: streamText_def resolveAndSend_def systemPromptOf_def messagesOf_def
        split: prod.splits)

lemma streamText_failed:
  assumes "resolverInputs cfg (messages ps) = (currentModel, currentProvider)"
      and "resolveModel cfg (credentialsOf ps) currentModel currentProvider = Inl e"
  shows "streamText cfg ps = Inl e"
  using assms by (simp add: streamText_def resolveAndSend_def)

text \<open>
  C10, as the code has it.  When the resolver has produced a model descriptor,
  \<open>streamText\<close> returns, and the token cap it passes to the SDK is the descriptor's
  \<open>maxTokenAllowed\<close> when that is present and not zero, and \<open>MAX_TOKENS\<close> otherwise,
  provided that \<open>options\<close> has no \<open>maxTokens\<close> of its own; a \<open>maxTokens\<close> in
  \<open>options\<close> is passed instead.
\<close>

theorem token_cap_of_the_request:
  assumes "resolverInputs cfg (messages ps) = (currentModel, currentProvider)"
      and "resolveModel cfg (credentialsOf ps) currentModel currentProvider =
             Inr (warnings, provider, modelDetails)"
  shows "\<exists>logs rq.
           streamText cfg ps = Inr (logs, rq) \<and>
           rq_model rq = mi_name modelDetails \<and>
           (optionsProperty ps opt_maxTokens = None \<longrightarrow>
              rq_maxTokens rq =
                (case maxTokenAllowed modelDetails of
                   None \<Rightarrow> MAX_TOKENS cfg
                 | Some n \<Rightarrow> if n \<noteq> 0 then n else MAX_TOKENS cfg)) \<and>
           (\<forall>v. optionsProperty ps opt_maxTokens = Some v \<longrightarrow> rq_maxTokens rq = v)"
  unfolding streamText_resolved [OF assms]
  by (simp add: overridden_None overridden_Some dynamicMaxTokens_def)

lemmas example_defs =
  exampleCollaborators_def exampleProps_def providerAcme_def providerBare_def
  modelAlpha_def modelBeta_def userMessage_def assistantMessage_def

lemmas streamText_defs =
  streamText_def resolveAndSend_def resolverInputs_def resolveModel_def resolveProvider_def
  getStaticModelListFromProvider_def staticModelsOrEmpty_def credentialsOf_def
  assemble_def processedMessages_def applyContext_def contextEnabled_def
  selectSystemPrompt_def appendLockedNotice_def effectiveLockedFilePaths_def
  overridden_def dynamicMaxTokens_def truthyString_def truthyBool_def truthyNumber_def
  supabaseParams_def

lemma resolveModel_unknown:
  assumes fetched: "getModelListFromProvider cfg (resolveProvider cfg currentProvider) creds = Inr fetched"
      and absent: "currentModel \<notin> mi_name ` set (staticModelsOrEmpty (resolveProvider cfg currentProvider) @ fetched)"
  shows "resolveModel cfg creds currentModel currentProvider =
           (case staticModelsOrEmpty (resolveProvider cfg currentProvider) @ fetched of
              [] \<Rightarrow> Inl (noModelsError (resolveProvider cfg currentProvider))
            | first # others \<Rightarrow>
                Inr ([fallbackWarning currentModel (resolveProvider cfg currentProvider) first],
                     resolveProvider cfg currentProvider, first))"
proof -
  let ?p = "resolveProvider cfg currentProvider"
  have all: "find (\<lambda>m. mi_name m = currentModel) (staticModelsOrEmpty ?p @ fetched) = None"
    using absent by (auto simp: find_None_iff)
  have statics: "find (\<lambda>m. mi_name m = currentModel) (getStaticModelListFromProvider ?p) = None"
    using absent by (auto simp: find_None_iff getStaticModelListFromProvider_def)
  show ?thesis
  proof (cases "staticModelsOrEmpty ?p @ fetched")
    case Nil
    then show ?thesis
      using statics fetched by (simp add: resolveModel_def Let_def)
  next
    case (Cons first others)
    then show ?thesis
      using statics fetched all by (simp add: resolveModel_def Let_def)
  qed
qed

text \<open>
  C1.  Let the model name be absent from the combined list (the static models of the
  resolved provider followed by the fetched ones).  If that list is empty,
  \<open>streamText\<close> fails with the error "No models found for provider" and the name of
  that provider.  If it is not empty, \<open>streamText\<close> returns, the request goes to that
  provider with the first model of the list, and the fallback is logged as a warning.
\<close>

theorem unknown_model_fails_or_falls_back:
  assumes inputs: "resolverInputs cfg (messages ps) = (currentModel, currentProvider)"
      and provider: "provider = resolveProvider cfg currentProvider"
      and fetched: "getModelListFromProvider cfg provider (credentialsOf ps) = Inr fetched"
      and combined: "modelsList = staticModelsOrEmpty provider @ fetched"
      and absent: "currentModel \<notin> mi_name ` set modelsList"
  shows "(modelsList = [] \<longrightarrow>
            streamText cfg ps = Inl (Error (''No models found for provider '' @ name provider))) \<and>
         (modelsList \<noteq> [] \<longrightarrow>
            (\<exists>logs rq.
               streamText cfg ps = Inr (logs, rq) \<and>
               rq_provider rq = provider \<and>
               rq_model rq = mi_name (hd modelsList) \<and>
               Warn (''MODEL ['' @ currentModel @ ''] not found in provider ['' @ name provider @
                     '']. Falling back to first model. '' @ mi_name (hd modelsList)) \<in> set logs))"
proof -
  have r: "resolveModel cfg (credentialsOf ps) currentModel currentProvider =
             (case modelsList of
                [] \<Rightarrow> Inl (noModelsError provider)
              | first # others \<Rightarrow>
                  Inr ([fallbackWarning currentModel provider first], provider, first))"
    using resolveModel_unknown [of cfg currentProvider "credentialsOf ps" fetched currentModel]
          fetched absent
    unfolding provider combined by simp
  show ?thesis
  proof (cases modelsList)
    case Nil
    then have "resolveModel cfg (credentialsOf ps) currentModel currentProvider =
                 Inl (noModelsError provider)"
      using r by simp
    from streamText_failed [OF inputs this] Nil show ?thesis
      by (simp add: noModelsError_def)
  next
    case (Cons first others)
    then have "resolveModel cfg (credentialsOf ps) currentModel currentProvider =
                 Inr ([fallbackWarning currentModel provider first], provider, first)"
      using r by simp
    from streamText_resolved [OF inputs this] Cons show ?thesis
      by (simp add: fallbackWarning_def)
  qed
qed

theorem unknown_model_fails_or_falls_back_witness:
  "streamText exampleCollaborators unknownAtBare =
     Inl (Error ''No models found for provider Bare'') \<and>
   (\<exists>logs rq.
      streamText exampleCollaborators unknownAtAcme = Inr (logs, rq) \<and>
      rq_provider rq = providerAcme \<and> rq_model rq = ''alpha'' \<and>
      Warn ''MODEL [gamma] not found in provider [Acme]. Falling back to first model. alpha''
        \<in> set logs)"
proof -
  have bare:
    "resolverInputs exampleCollaborators (messages unknownAtBare) = (''gamma'', ''Bare'')"
    "providerBare = resolveProvider exampleCollaborators ''Bare''"
    "getModelListFromProvider exampleCollaborators providerBare (credentialsOf unknownAtBare) = Inr []"
    "[] = staticModelsOrEmpty providerBare @ []"
    "''gamma'' \<notin> mi_name ` set []"
    by (simp_all add: unknownAtBare_def example_defs resolverInputs_def resolveProvider_def
          staticModelsOrEmpty_def)
  have acme:
    "resolverInputs exampleCollaborators (messages unknownAtAcme) = (''gamma'', ''Acme'')"
    "providerAcme = resolveProvider exampleCollaborators ''Acme''"
    "getModelListFromProvider exampleCollaborators providerAcme (credentialsOf unknownAtAcme) =
       Inr [modelBeta]"
    "[modelAlpha, modelBeta] = staticModelsOrEmpty providerAcme @ [modelBeta]"
    "''gamma'' \<notin> mi_name ` set [modelAlpha, modelBeta]"
    by (simp_all add: unknownAtAcme_def example_defs resolverInputs_def resolveProvider_def
          staticModelsOrEmpty_def)
  show ?thesis
    using unknown_model_fails_or_falls_back [OF bare]
          unknown_model_fails_or_falls_back [OF acme]
    by (simp add: example_defs)
qed

theorem token_cap_of_the_request_witness:
  "(\<exists>logs rq.
      streamText exampleCollaborators cappedProps = Inr (logs, rq) \<and>
      rq_model rq = ''alpha'' \<and> rq_maxTokens rq = 512) \<and>
   (\<exists>logs rq.
      streamText exampleCollaborators (cappedProps\<lparr>options := None\<rparr>) = Inr (logs, rq) \<and>
      rq_model rq = ''alpha'' \<and> rq_maxTokens rq = 4096)"
proof -
  have h:
    "resolverInputs exampleCollaborators (messages cappedProps) = (''alpha'', ''Acme'')"
    "resolveModel exampleCollaborators (credentialsOf cappedProps) ''alpha'' ''Acme'' =
       Inr ([], providerAcme, modelAlpha)"
    by (simp_all add: cappedProps_def example_defs resolverInputs_def resolveModel_def
          resolveProvider_def getStaticModelListFromProvider_def staticModelsOrEmpty_def
          credentialsOf_def)
  have o: "optionsProperty cappedProps opt_maxTokens = Some 512"
    by (simp add: cappedProps_def optionsProperty_def exampleProps_def)
  have h':
    "resolverInputs exampleCollaborators (messages (cappedProps\<lparr>options := None\<rparr>)) =
       (''alpha'', ''Acme'')"
    "resolveModel exampleCollaborators (credentialsOf (cappedProps\<lparr>options := None\<rparr>))
       ''alpha'' ''Acme'' = Inr ([], providerAcme, modelAlpha)"
    by (simp_all add: cappedProps_def example_defs resolverInputs_def resolveModel_def
          resolveProvider_def getStaticModelListFromProvider_def staticModelsOrEmpty_def
          credentialsOf_def)
  have o': "optionsProperty (cappedProps\<lparr>options := None\<rparr>) opt_maxTokens = None"
    by (simp add: optionsProperty_def)
  show ?thesis
    using token_cap_of_the_request [OF h] o token_cap_of_the_request [OF h'] o'
    by (auto simp: modelAlpha_def)
qed

text \<open>
  C10 as stated fails when \<open>options\<close> carries a \<open>maxTokens\<close>: the resolved model
  allows 4096 tokens, the cap passed on is the 512 of the options.
\<close>

theorem token_cap_counterexample:
  "streamText exampleCollaborators cappedProps =
     Inr ([Info ''Max tokens for model alpha is 4096 based on 4096 or 8000'',
           ConsoleLog ''No locked files found from any source for prompt.'',
           Info ''Sending llm call to Acme with model alpha''],
          \<lparr>rq_provider = providerAcme,
           rq_model = ''alpha'',
           rq_system = ''You are Bolt.'',
           rq_maxTokens = 512,
           rq_messages = [userMessage ''alpha@Acme'']\<rparr>) \<and>
   maxTokenAllowed modelAlpha = Some 4096"
  by (simp add: cappedProps_def example_defs streamText_defs maxTokensInfo_def sendingInfo_def
        numberToString_def decimal.simps)

subsection \<open>The patch prompt\<close>



































subsection \<open>Locked files, context buffer and truncation\<close>

lemma setAdd_set: "set (setAdd x xs) = insert x (set xs)"
  by (auto simp: setAdd_def)

lemma setAdd_distinct: "distinct xs \<Longrightarrow> distinct (setAdd x xs)"
  by (simp add: setAdd_def)

lemma collectLocked_set:
  "set (collectLocked acc entries) = set acc \<union> set (lockedPaths entries)"
  by (induction acc entries rule: collectLocked.induct)
     (auto simp: lockedPaths_def setAdd_set)

lemma collectLocked_distinct:
  "distinct acc \<Longrightarrow> distinct (collectLocked acc entries)"
  by (induction acc entries rule: collectLocked.induct)
     (auto simp: setAdd_distinct)

lemma collectLocked_order:
  "distinct (acc @ lockedPaths entries) \<Longrightarrow>
   collectLocked acc entries = acc @ lockedPaths entries"
proof (induction acc entries rule: collectLocked.induct)
  case (1 acc)
  then show ?case by (simp add: lockedPaths_def)
next
  case (2 acc filePath fileDetails entries)
  show ?case
  proof (cases "fileIsLocked fileDetails")
    case True
    have lp: "lockedPaths ((filePath, fileDetails) # entries) = filePath # lockedPaths entries"
      using True by (simp add: lockedPaths_def)
    have new: "filePath \<notin> set acc"
      using "2.prems" lp by auto
    then have sa: "setAdd filePath acc = acc @ [filePath]"
      by (simp add: setAdd_def)
    have "distinct ((acc @ [filePath]) @ lockedPaths entries)"
      using "2.prems" lp by simp
    then have "collectLocked (acc @ [filePath]) entries = (acc @ [filePath]) @ lockedPaths entries"
      using "2.IH" True sa by simp
    then show ?thesis
      using True sa lp by simp
  next
    case False
    have lp: "lockedPaths ((filePath, fileDetails) # entries) = lockedPaths entries"
      using False by (simp add: lockedPaths_def)
    then show ?thesis
      using "2.IH" "2.prems" False by simp
  qed
qed

lemma lockedPaths_distinct:
  "distinct (map fst entries) \<Longrightarrow> distinct (lockedPaths entries)"
  unfolding lockedPaths_def by (rule distinct_map_filter)

lemma systemPromptOf_eq:
  "systemPromptOf cfg ps =
     fst (applyContext cfg ps (selectSystemPrompt cfg ps) (processedMessages cfg (messages ps))) @
     lockedBlock (files ps)"
  by (simp add: systemPromptOf_def assemble_def appendLockedNotice_def lockedBlock_def Let_def
        split: prod.splits)


text \<open>
  C4.  Whatever the chat mode: when a file of the files map is locked, the system
  prompt is the prompt as it stands after the context stage followed by the notice,
  so the notice is the last block appended.  The notice lists the locked paths, each
  once, and in the order in which the files map enumerates them (the keys of an object
  are distinct).
\<close>

theorem locked_files_notice_is_last:
  assumes "files ps = Some entries"
      and "\<exists>(filePath, fileDetails) \<in> set entries. fileIsLocked fileDetails"
  shows "systemPromptOf cfg ps =
           fst (applyContext cfg ps (selectSystemPrompt cfg ps)
                  (processedMessages cfg (messages ps))) @
           NL @ NL @
           ''IMPORTANT: The following files are locked and MUST NOT be modified in any way. Do not suggest or make any changes to these files. You can proceed with the request but DO NOT make any changes to these files specifically:'' @ NL @
           join NL (map (\<lambda>filePath. ''- '' @ filePath) (effectiveLockedFilePaths (files ps))) @ NL @
           ''---'' \<and>
         distinct (effectiveLockedFilePaths (files ps)) \<and>
         set (effectiveLockedFilePaths (files ps)) =
           {filePath. \<exists>fileDetails. (filePath, fileDetails) \<in> set entries \<and> fileIsLocked fileDetails} \<and>
         (distinct (map fst entries) \<longrightarrow>
            effectiveLockedFilePaths (files ps) = lockedPaths entries)"
proof -
  have eff: "effectiveLockedFilePaths (files ps) = collectLocked [] entries"
    using assms(1) by (simp add: effectiveLockedFilePaths_def)
  have s: "set (collectLocked [] entries) =
             {filePath. \<exists>fileDetails. (filePath, fileDetails) \<in> set entries \<and> fileIsLocked fileDetails}"
    unfolding collectLocked_set by (force simp: lockedPaths_def)
  have "set (collectLocked [] entries) \<noteq> {}"
    unfolding s using assms(2) by auto
  then have ne: "effectiveLockedFilePaths (files ps) \<noteq> []"
    using eff by auto
  have o: "distinct (map fst entries) \<longrightarrow> collectLocked [] entries = lockedPaths entries"
    using collectLocked_order [of "[]" entries] lockedPaths_distinct [of entries] by simp
  show ?thesis
    unfolding systemPromptOf_eq
    using ne eff s o collectLocked_distinct [of "[]" entries]
    by (simp add: lockedBlock_def lockedFilesNotice_def)
qed

lemmas assembly_defs =
  systemPromptOf_def messagesOf_def assemble_def processedMessages_def applyContext_def
  contextEnabled_def selectSystemPrompt_def appendLockedNotice_def
  effectiveLockedFilePaths_def setAdd_def fileIsLocked_def lockedFilesNotice_def
  contextBufferBlock_def chatSummaryBlock_def truthyString_def truthyBool_def
  truthyNumber_def supabaseParams_def slice_def lastMessageOnly_def

theorem locked_files_notice_is_last_witness:
  "systemPromptOf exampleCollaborators lockedProps =
     ''Discuss.'' @ NL @ NL @
     ''IMPORTANT: The following files are locked and MUST NOT be modified in any way. Do not suggest or make any changes to these files. You can proceed with the request but DO NOT make any changes to these files specifically:'' @ NL @
     ''- a.ts'' @ NL @ ''- d.ts'' @ NL @ ''---'' \<and>
   effectiveLockedFilePaths (files lockedProps) = [''a.ts'', ''d.ts'']"
proof -
  have f: "files lockedProps =
             Some [(''a.ts'', Some lockedFile), (''b.ts'', Some openFile),
                   (''c.ts'', None), (''d.ts'', Some lockedFile)]"
    by (simp add: lockedProps_def)
  have l: "\<exists>(filePath, fileDetails) \<in>
              set [(''a.ts'', Some lockedFile), (''b.ts'', Some openFile),
                   (''c.ts'', None), (''d.ts'', Some lockedFile)]. fileIsLocked fileDetails"
    by (simp add: fileIsLocked_def lockedFile_def truthyBool_def)
  have d: "distinct (map fst [(''a.ts'', Some lockedFile), (''b.ts'', Some openFile),
                   (''c.ts'', None), (''d.ts'', Some lockedFile)])"
    by simp
  have p: "lockedPaths [(''a.ts'', Some lockedFile), (''b.ts'', Some openFile),
                   (''c.ts'', None), (''d.ts'', Some lockedFile)] = [''a.ts'', ''d.ts'']"
    by (simp add: lockedPaths_def fileIsLocked_def lockedFile_def openFile_def truthyBool_def)
  have b: "fst (applyContext exampleCollaborators lockedProps
                  (selectSystemPrompt exampleCollaborators lockedProps)
                  (processedMessages exampleCollaborators (messages lockedProps))) = ''Discuss.''"
    by (simp add: lockedProps_def example_defs assembly_defs)
  from locked_files_notice_is_last [OF f l, of exampleCollaborators] d p b
  show ?thesis by simp
qed

















subsection \<open>Rewriting of assistant messages\<close>

lemma find_sub_Some: "find_sub pat s = Some (b, a) \<Longrightarrow> s = b @ pat @ a"
proof (induction s arbitrary: b)
  case Nil
  then show ?case by (simp split: if_splits)
next
  case (Cons c cs)
  show ?case
  proof (cases "prefix pat (c # cs)")
    case True
    then obtain zs where zs: "c # cs = pat @ zs"
      by (auto simp: prefix_def)
    from True Cons.prems have "b = []" "a = drop (length pat) (c # cs)"
      by simp_all
    then show ?thesis
      unfolding zs by simp
  next
    case False
    with Cons.prems obtain b' where "find_sub pat cs = Some (b', a)" "b = c # b'"
      by (auto split: option.splits)
    with Cons.IH show ?thesis by simp
  qed
qed

lemma find_sub_first:
  "s = u @ pat @ w \<Longrightarrow> \<exists>b a. find_sub pat s = Some (b, a) \<and> length b \<le> length u"
proof (induction s arbitrary: u)
  case Nil
  then show ?case by simp
next
  case (Cons c cs)
  show ?case
  proof (cases "prefix pat (c # cs)")
    case True
    then show ?thesis by simp
  next
    case False
    have "u \<noteq> []"
    proof
      assume "u = []"
      with Cons.prems have "prefix pat (c # cs)" by simp
      with False show False by simp
    qed
    then obtain u' where u: "u = c # u'" "cs = u' @ pat @ w"
      using Cons.prems by (cases u) auto
    from Cons.IH [OF u(2)] obtain b a where "find_sub pat cs = Some (b, a)" "length b \<le> length u'"
      by blast
    with False u show ?thesis by simp
  qed
qed

lemma find_block_Some:
  "find_block A B s = Some (b, a) \<Longrightarrow> \<exists>inner. s = b @ A @ inner @ B @ a"
  by (auto simp: find_block_def split: option.splits dest!: find_sub_Some)

lemma find_block_found:
  assumes "s = u @ A @ v @ B @ w"
  shows "find_block A B s \<noteq> None"
proof -
  from find_sub_first [of s u A "v @ B @ w"] assms
  obtain b rest where f: "find_sub A s = Some (b, rest)" and le: "length b \<le> length u"
    by auto
  have s: "s = b @ A @ rest"
    using f by (rule find_sub_Some)
  have "s = (b @ A) @ rest" "s = (u @ A) @ (v @ B @ w)"
    using s assms by simp_all
  then have "suffix rest s" "suffix (v @ B @ w) s"
    by (metis suffixI)+
  moreover have "length (v @ B @ w) \<le> length rest"
  proof -
    have "length b + length A + length rest = length u + length A + length (v @ B @ w)"
      using s assms by (metis append_assoc length_append)
    with le show ?thesis by arith
  qed
  ultimately have "suffix (v @ B @ w) rest"
    using suffix_length_suffix by blast
  then obtain x where "rest = x @ B @ w"
    by (auto simp: suffix_def)
  from find_sub_first [OF this] obtain inner a where "find_sub B rest = Some (inner, a)"
    by blast
  with f show ?thesis
    by (simp add: find_block_def)
qed

lemma find_block_None_embedded:
  assumes "find_block A B (l @ s @ r) = None"
  shows "find_block A B s = None"
proof (rule ccontr)
  assume "find_block A B s \<noteq> None"
  then obtain b a where "find_block A B s = Some (b, a)" by auto
  then obtain inner where "s = b @ A @ inner @ B @ a"
    using find_block_Some by blast
  then have "l @ s @ r = (l @ b) @ A @ inner @ B @ (a @ r)" by simp
  from find_block_found [OF this] assms show False by simp
qed

lemma trim_embedded: "\<exists>l r. c = l @ trim c @ r"
proof -
  let ?d = "dropWhile isWhiteSpace c"
  have "rev ?d = takeWhile isWhiteSpace (rev ?d) @ dropWhile isWhiteSpace (rev ?d)"
    by simp
  then have "?d = trim c @ rev (takeWhile isWhiteSpace (rev ?d))"
    unfolding trim_def by (metis rev_append rev_rev_ident)
  moreover have "c = takeWhile isWhiteSpace c @ ?d"
    by simp
  ultimately show ?thesis by metis
qed

lemma trim_idem: "trim (trim c) = trim c"
proof -
  let ?d = "dropWhile isWhiteSpace c"
  let ?t = "trim c"
  have t: "?t = rev (dropWhile isWhiteSpace (rev ?d))"
    by (simp add: trim_def)
  have "?d = ?t @ rev (takeWhile isWhiteSpace (rev ?d))"
    unfolding t by (metis rev_append rev_rev_ident takeWhile_dropWhile_id)
  then have hd: "?t \<noteq> [] \<Longrightarrow> hd ?t = hd ?d \<and> ?d \<noteq> []"
    by (metis hd_append2 append_is_Nil_conv)
  have front: "dropWhile isWhiteSpace ?t = ?t"
    unfolding dropWhile_eq_self_iff using hd hd_dropWhile [of isWhiteSpace c] by auto
  have "trim ?t = rev (dropWhile isWhiteSpace (rev ?t))"
    unfolding trim_def [of ?t] front ..
  also have "\<dots> = rev (dropWhile isWhiteSpace (dropWhile isWhiteSpace (rev ?d)))"
    unfolding t by simp
  also have "\<dots> = ?t"
    unfolding t by simp
  finally show ?thesis .
qed

lemma clean_markerFree: "markerFree c \<Longrightarrow> cleanAssistantContent c = trim c"
  by (simp add: markerFree_def cleanAssistantContent_def replace_first_block_def
        replace_all_blocks.simps)

lemma markerFree_trim: "markerFree c \<Longrightarrow> markerFree (trim c)"
proof -
  assume m: "markerFree c"
  obtain l r where c: "c = l @ trim c @ r"
    using trim_embedded by blast
  have "find_block A B (trim c) = None" if "find_block A B c = None" for A B
    using that c find_block_None_embedded [of A B l "trim c" r] by simp
  with m show ?thesis
    by (simp add: markerFree_def)
qed

text \<open>
  C7.  On the content of an assistant message in which none of the three patterns
  matches, the rewriting only trims, and rewriting the result again gives the same
  content.
\<close>

theorem preprocessing_idempotent_without_markers:
  assumes "markerFree c"
  shows "cleanAssistantContent c = trim c \<and>
         cleanAssistantContent (cleanAssistantContent c) = cleanAssistantContent c"
  using assms clean_markerFree [of c] clean_markerFree [OF markerFree_trim [OF assms]]
  by (simp add: trim_idem)

theorem preprocessing_idempotent_without_markers_witness:
  "markerFree paddedText \<and>
   cleanAssistantContent paddedText = ''hello <think> world'' \<and>
   cleanAssistantContent (cleanAssistantContent paddedText) = cleanAssistantContent paddedText"
proof -
  have m: "markerFree paddedText"
    by code_simp
  have t: "trim paddedText = ''hello <think> world''"
    by code_simp
  from preprocessing_idempotent_without_markers [OF m] m t show ?thesis
    by metis
qed

lemma find_block_shorter:
  assumes "opening \<noteq> []" and "find_block opening closing s = Some (before, after)"
  shows "length after < length s"
proof -
  obtain inner where "s = before @ opening @ inner @ closing @ after"
    using assms(2) find_block_Some by blast
  then have "length s = length before + length opening + length inner + length closing + length after"
    by simp
  with assms(1) show ?thesis by (cases "opening") simp_all
qed

lemma two_thought_blocks:
  "cleanAssistantContent ''<think>a</think>x<think>b</think>'' = ''x<think>b</think>''"
  "find_block think_open think_close ''x<think>b</think>'' = Some (''x'', [])"
  by code_simp+

text \<open>
  C6 at an assistant message with two \<open>think\<close> blocks: only the first block is
  removed, and the processed content still has a thought block.  (The two thought
  patterns are replaced without the \<open>g\<close> flag; the package-lock pattern on the next
  line has it.)
\<close>

theorem second_thought_block_survives:
  "processedMessages exampleCollaborators
     [assistantMessage ''<think>a</think>x<think>b</think>''] =
   [assistantMessage ''x<think>b</think>''] \<and>
   find_block think_open think_close ''x<think>b</think>'' = Some (''x'', [])"
  by (simp add: processedMessages_def assistantMessage_def two_thought_blocks)

subsection \<open>Persisted settings\<close>

lemma provider_settings_malformed:
  assumes "JSON_parse pg s = None"
      and "getItem (localStorage pg) PROVIDER_SETTINGS_KEY = Some s"
  shows "getInitialProviderSettings pg providerList =
           (if isBrowser pg \<and> s \<noteq> []
            then [ConsoleError ''Error parsing provider settings:'' SyntaxError] else [],
            defaultProviderSettings providerList)"
  using assms by (simp add: getInitialProviderSettings_def parsingError_def Let_def)

lemma tab_configuration_malformed:
  assumes "JSON_parse pg s = None"
      and "getItem (localStorage pg) TAB_CONFIGURATION = Some s"
  shows "getInitialTabConfiguration pg defaults = ([], defaultTabConfiguration defaults)"
  using assms by (simp add: getInitialTabConfiguration_def Let_def)

text \<open>
  C8, as the code has it.  For a stored string that \<open>JSON.parse\<close> rejects:
  \<open>getInitialProviderSettings\<close> returns the default settings and, in a browser and
  for a non-empty string, logs the error with \<open>console.error\<close>;
  \<open>getInitialTabConfiguration\<close> returns the default configuration and logs nothing.
  Both functions return a value in every case.
\<close>

theorem malformed_settings_fall_back_to_defaults:
  assumes "JSON_parse pg s = None"
  shows "(getItem (localStorage pg) PROVIDER_SETTINGS_KEY = Some s \<longrightarrow>
            snd (getInitialProviderSettings pg providerList) = defaultProviderSettings providerList \<and>
            fst (getInitialProviderSettings pg providerList) =
              (if isBrowser pg \<and> s \<noteq> []
               then [ConsoleError ''Error parsing provider settings:'' SyntaxError] else [])) \<and>
         (getItem (localStorage pg) TAB_CONFIGURATION = Some s \<longrightarrow>
            snd (getInitialTabConfiguration pg defaults) = defaultTabConfiguration defaults \<and>
            fst (getInitialTabConfiguration pg defaults) = [])"
  using provider_settings_malformed [OF assms, of providerList]
        tab_configuration_malformed [OF assms, of defaults]
  by simp

lemma brokenPage_facts:
  "JSON_parse brokenPage ''{oops'' = None"
  "getItem (localStorage brokenPage) PROVIDER_SETTINGS_KEY = Some ''{oops''"
  "getItem (localStorage brokenPage) TAB_CONFIGURATION = Some ''{oops''"
  "isBrowser brokenPage"
  by (simp_all add: brokenPage_def exampleParse_def getItem_def PROVIDER_SETTINGS_KEY_def
        TAB_CONFIGURATION_def)

theorem malformed_settings_fall_back_to_defaults_witness:
  "JSON_parse brokenPage ''{oops'' = None \<and>
   getInitialProviderSettings brokenPage [providerAcme, providerBare] =
     ([ConsoleError ''Error parsing provider settings:'' SyntaxError],
      defaultProviderSettings [providerAcme, providerBare]) \<and>
   getInitialTabConfiguration brokenPage exampleTabs = ([], defaultTabConfiguration exampleTabs)"
  using malformed_settings_fall_back_to_defaults
          [OF brokenPage_facts(1), of "[providerAcme, providerBare]" exampleTabs]
        brokenPage_facts
  by (simp add: prod_eq_iff)

text \<open>
  C8 as stated fails for the tab configuration: the malformed string stored under
  \<open>bolt_tab_configuration\<close> is replaced by the default without anything being
  logged.
\<close>

theorem silent_tab_configuration_counterexample:
  "JSON_parse brokenPage ''{oops'' = None \<and>
   getItem (localStorage brokenPage) TAB_CONFIGURATION = Some ''{oops'' \<and>
   fst (getInitialTabConfiguration brokenPage exampleTabs) = []"
  using tab_configuration_malformed [OF brokenPage_facts(1) brokenPage_facts(3), of exampleTabs]
        brokenPage_facts
  by simp

subsection \<open>The selection held by the settings store\<close>

lemma listener_fields [simp]:
  "selectedProvider (listener pg st) = selectedProvider st"
  "selectedModel (listener pg st) = selectedModel st"
  "st_providers (listener pg st) = st_providers st"
  "st_models (listener pg st) = st_models st"
  "st_providerSettings (listener pg st) = st_providerSettings st"
  by (simp_all add: listener_def Let_def split: option.splits)

lemma handleProviderSelect_fields [simp]:
  "selectedProvider (handleProviderSelect pg p st) = Some p"
  "selectedModel (handleProviderSelect pg p st) = modelOnProviderSelect p"
  "st_providers (handleProviderSelect pg p st) = st_providers st"
  "st_models (handleProviderSelect pg p st) = st_models st"
  by (simp_all add: handleProviderSelect_def setSelectedProvider_def setSelectedModel_def)

lemma handleModelSelect_fields [simp]:
  "selectedProvider (handleModelSelect pg m st) = selectedProvider st"
  "selectedModel (handleModelSelect pg m st) = m"
  "st_providers (handleModelSelect pg m st) = st_providers st"
  "st_models (handleModelSelect pg m st) = st_models st"
  by (simp_all add: handleModelSelect_def setSelectedModel_def)






















end
